theory Spec2Isabelle
  imports Complex_Main
begin

section \<open>Orbit propagation: the simulator of \<open>simulator.py\<close>\<close>

subsection \<open>Errors\<close>

datatype error = IndexError | ValueError | ZeroDivisionError | TypeError

subsection \<open>Floating-point numbers\<close>

text \<open>
  The simulator computes with numpy's 64-bit floats. A float is taken here as a real
  number, or as a value that is not finite: \<open>NotFinite\<close> stands for \<open>nan\<close> and for
  \<open>inf\<close> of either sign, which are not told apart. Rounding, overflow and underflow
  are not modelled. numpy does not raise on a floating-point division by zero, it
  yields \<open>nan\<close> or \<open>inf\<close>; a value that is not finite stays so under sum, product
  and square root. A quotient whose divisor is not finite is taken as not finite: that
  is what numpy gives for \<open>nan\<close>, while a finite number divided by \<open>inf\<close> would be 0.
\<close>

datatype fl = Fin real | NotFinite

fun is_Fin :: "fl \<Rightarrow> bool" where
  "is_Fin (Fin x) = True"
| "is_Fin NotFinite = False"

fun fadd :: "fl \<Rightarrow> fl \<Rightarrow> fl" where
  "fadd (Fin a) (Fin b) = Fin (a + b)"
| "fadd _ _ = NotFinite"

fun fsub :: "fl \<Rightarrow> fl \<Rightarrow> fl" where
  "fsub (Fin a) (Fin b) = Fin (a - b)"
| "fsub _ _ = NotFinite"

fun fmul :: "fl \<Rightarrow> fl \<Rightarrow> fl" where
  "fmul (Fin a) (Fin b) = Fin (a * b)"
| "fmul _ _ = NotFinite"

fun fdiv :: "fl \<Rightarrow> fl \<Rightarrow> fl" where
  "fdiv (Fin a) (Fin b) = (if b = 0 then NotFinite else Fin (a / b))"
| "fdiv _ _ = NotFinite"

fun fneg :: "fl \<Rightarrow> fl" where
  "fneg (Fin a) = Fin (- a)"
| "fneg NotFinite = NotFinite"

fun fpow :: "fl \<Rightarrow> nat \<Rightarrow> fl" where
  "fpow (Fin a) n = Fin (a ^ n)"
| "fpow NotFinite n = (if n = 0 then Fin 1 else NotFinite)"

fun fsqrt :: "fl \<Rightarrow> fl" where
  "fsqrt (Fin a) = (if a < 0 then NotFinite else Fin (sqrt a))"
| "fsqrt NotFinite = NotFinite"

definition fsum :: "fl list \<Rightarrow> fl" where
  "fsum xs = foldr fadd xs (Fin 0)"

subsection \<open>numpy on arrays\<close>

definition norm_v :: "fl list \<Rightarrow> fl" where
  \<comment> \<open>\<open>np.linalg.norm\<close> of a vector: the Euclidean norm.\<close>
  "norm_v xs = fsqrt (fsum (map (\<lambda>x. fpow x 2) xs))"

definition scal :: "fl \<Rightarrow> fl list \<Rightarrow> fl list" where
  \<comment> \<open>scalar times array\<close>
  "scal c xs = map (\<lambda>x. fmul c x) xs"

definition vdiv :: "fl list \<Rightarrow> fl \<Rightarrow> fl list" where
  \<comment> \<open>array divided by scalar\<close>
  "vdiv xs c = map (\<lambda>x. fdiv x c) xs"

definition vadd :: "fl list \<Rightarrow> fl list \<Rightarrow> fl list" where
  \<comment> \<open>array plus array, the shapes being equal\<close>
  "vadd xs ys = map2 fadd xs ys"

definition np_dot :: "fl list list \<Rightarrow> fl list \<Rightarrow> fl list" where
  \<comment> \<open>\<open>np.dot\<close> of a matrix (list of rows) and a vector\<close>
  "np_dot A x = map (\<lambda>row. fsum (map2 fmul row x)) A"

definition slice :: "nat \<Rightarrow> nat \<Rightarrow> 'a list \<Rightarrow> 'a list" where
  \<comment> \<open>\<open>y[i:j]\<close>: a slice never raises, it is cut at the end of the array\<close>
  "slice i j xs = take (j - i) (drop i xs)"

definition linspace :: "real \<Rightarrow> real \<Rightarrow> int \<Rightarrow> error + real list" where
  \<comment> \<open>\<open>np.linspace(start, stop, num)\<close> with the endpoint, for finite \<open>start\<close> and
      \<open>stop\<close>: a negative \<open>num\<close> raises ValueError; one point is \<open>start\<close> alone.\<close>
  "linspace start stop num =
     (if num < 0 then Inl ValueError
      else if num = 1 then Inr [start]
      else Inr (map (\<lambda>i. start + real i * ((stop - start) / real (nat num - 1)))
                    [0 ..< nat num]))"

subsection \<open>Constants\<close>

text \<open>
  The module \<open>constants\<close> is imported by the simulator and is not part of the source
  at hand; its values, finite numbers, are a parameter of every function that reads
  them.
\<close>

record phys_constants =
  MU_EARTH :: real
  R_EARTH :: real
  J2 :: real
  C_D :: real
  SA :: real
  G0 :: real
  ISP :: real

text \<open>The dictionary of normalized parameters built by \<open>get_trajectory_ODE\<close>; a field
  \<open>k_X\<close> is the entry \<open>'X'\<close>.\<close>

record norm_constants =
  k_MU :: fl
  k_R_E :: fl
  k_J2 :: fl
  k_S :: fl
  k_G0 :: fl
  k_ISP :: fl
  k_R0 :: fl
  k_RHO :: fl

subsection \<open>Atmospheric density\<close>

definition get_atmo_density :: "phys_constants \<Rightarrow> fl list \<Rightarrow> fl \<Rightarrow> real" where
  "get_atmo_density pc r r0 =
     (let altitude = fsub (norm_v (scal r0 r)) (Fin (R_EARTH pc))
      in 9.983 / 10 ^ 13)"

subsection \<open>Dynamics\<close>

definition broadcast3 :: "fl list \<Rightarrow> error + fl list" where
  \<comment> \<open>What numpy makes of a one-dimensional array added to arrays of shape (3,): a
      length-one array is repeated, any other length than 3 raises ValueError.\<close>
  "broadcast3 xs =
     (if length xs = 3 then Inr xs
      else if length xs = 1 then Inr (replicate 3 (hd xs))
      else Inl ValueError)"

text \<open>The control function gives a finite thrust vector; \<open>tf\<close> is the orbit count, a
  finite number.\<close>

definition satellite_dynamics ::
  "phys_constants \<Rightarrow> real \<Rightarrow> fl list \<Rightarrow> (real \<Rightarrow> real list) \<Rightarrow> real \<Rightarrow> norm_constants
     \<Rightarrow> error + fl list" where
  "satellite_dynamics pc tau y u tf constants =
     (let r = slice 0 3 y;
          v = slice 3 6 y
      in if length y < 7 then Inl IndexError
      else
        let m = y ! 6;
            thrust = slice 7 10 y;
            r_z = r ! 2;
            r_norm = norm_v r;
            a_g = scal (fdiv (fneg (k_MU constants)) (fpow r_norm 3)) r;
            A = [[fsub (fmul (Fin 5) (fpow (fdiv r_z r_norm) 2)) (Fin 1), Fin 0, Fin 0],
                 [Fin 0, fsub (fmul (Fin 5) (fpow (fdiv r_z r_norm) 2)) (Fin 1), Fin 0],
                 [Fin 0, Fin 0, fsub (fmul (Fin 5) (fpow (fdiv r_z r_norm) 2)) (Fin 3)]];
            a_j2 = scal (fdiv (fmul (fmul (fmul (Fin 1.5) (k_J2 constants)) (k_MU constants))
                                 (fpow (k_R_E constants) 2))
                           (fpow (norm_v r) 5))
                        (np_dot A r);
            a_d = scal (fmul (fmul (fmul (fmul (fmul (Fin (- 1 / 2)) (Fin (C_D pc)))
                                               (k_S constants))
                                         (fdiv (Fin 1) m))
                                   (fdiv (Fin (get_atmo_density pc r (k_R0 constants)))
                                         (k_RHO constants)))
                             (norm_v v))
                       v
        in case broadcast3 (vdiv (map Fin (u tau)) m) of
             Inl e \<Rightarrow> Inl e
           | Inr a_u \<Rightarrow>
               let y_dot = v @ vadd (vadd (vadd a_g a_j2) a_u) a_d
                             @ [fdiv (fneg (norm_v thrust))
                                     (fmul (k_G0 constants) (k_ISP constants))]
               in Inr (scal (Fin tf) y_dot))"

subsection \<open>Collaborators\<close>

text \<open>
  The satellite and the controller are plain attribute holders defined outside the
  source at hand. A satellite's position, velocity and thrust are arrays of finite
  numbers, its mass is a Python number (so \<open>sat.mass / m0\<close> raises ZeroDivisionError
  on a zero mass), its \<open>id\<close> is opaque. The controller's \<open>get_u_func()\<close> hands out the
  thrust function.
\<close>

record satellite =
  sat_id :: nat
  position :: "real list"
  velocity :: "real list"
  mass :: real
  thrust :: "real list"

record controller =
  get_u_func :: "real \<Rightarrow> real list"

text \<open>
  \<open>scipy.integrate.solve_ivp\<close> is a parameter: it takes the right-hand side, the time
  span, the initial state, the sample points \<open>t_eval\<close> and \<open>max_step\<close>. It raises
  (\<open>Inl\<close>) on arguments it rejects; an integration that breaks down does not raise, it
  returns a result whose \<open>success\<close> flag is false. The field \<open>y\<close> of a result is a
  two-dimensional array with a column for each sample point collected, or, when no
  sample point was collected, the empty Python list.
\<close>

datatype sol_values = PyList | NdArray "fl list list"

record ode_result =
  sol_success :: bool
  sol_y :: sol_values

type_synonym ivp_solver =
  "(real \<Rightarrow> fl list \<Rightarrow> error + fl list) \<Rightarrow> real \<times> real \<Rightarrow> fl list \<Rightarrow> real list \<Rightarrow> real
     \<Rightarrow> error + ode_result"

record simulator =
  sim_data :: "nat \<rightharpoonup> fl list list"
  sats :: "satellite list"
  ctrl :: controller

subsection \<open>Normalization and the adaptive path\<close>

text \<open>The local variables of \<open>get_trajectory_ODE\<close>, one definition each.\<close>

definition scale_r0 :: "satellite \<Rightarrow> fl" where
  "scale_r0 sat = norm_v (map Fin (position sat))"

definition scale_s0 :: "phys_constants \<Rightarrow> satellite \<Rightarrow> fl" where
  "scale_s0 pc sat =
     fmul (fmul (Fin 2) (Fin pi)) (fsqrt (fdiv (fpow (scale_r0 sat) 3) (Fin (MU_EARTH pc))))"

definition scale_v0 :: "phys_constants \<Rightarrow> satellite \<Rightarrow> fl" where
  "scale_v0 pc sat = fdiv (scale_r0 sat) (scale_s0 pc sat)"

definition scale_a0 :: "phys_constants \<Rightarrow> satellite \<Rightarrow> fl" where
  "scale_a0 pc sat = fdiv (scale_r0 sat) (fpow (scale_s0 pc sat) 2)"

definition scale_m0 :: "satellite \<Rightarrow> real" where
  "scale_m0 sat = mass sat"

definition scale_T0 :: "phys_constants \<Rightarrow> satellite \<Rightarrow> fl" where
  "scale_T0 pc sat = fdiv (fmul (Fin (scale_m0 sat)) (scale_r0 sat)) (fpow (scale_s0 pc sat) 2)"

definition scale_mu0 :: "phys_constants \<Rightarrow> satellite \<Rightarrow> fl" where
  "scale_mu0 pc sat = fdiv (fpow (scale_r0 sat) 3) (fpow (scale_s0 pc sat) 2)"

definition initial_state :: "phys_constants \<Rightarrow> satellite \<Rightarrow> error + fl list" where
  \<comment> \<open>\<open>y0\<close>; the quotient \<open>sat.mass / m0\<close> is one of Python numbers\<close>
  "initial_state pc sat =
     (if scale_m0 sat = 0 then Inl ZeroDivisionError
      else Inr (vdiv (map Fin (position sat)) (scale_r0 sat)
                  @ vdiv (map Fin (velocity sat)) (scale_v0 pc sat)
                  @ [Fin (mass sat / scale_m0 sat)]))"

definition normalized_constants :: "phys_constants \<Rightarrow> satellite \<Rightarrow> norm_constants" where
  \<comment> \<open>\<open>const\<close>\<close>
  "normalized_constants pc sat =
     \<lparr>k_MU = fdiv (Fin (MU_EARTH pc)) (scale_mu0 pc sat),
      k_R_E = fdiv (Fin (R_EARTH pc)) (scale_r0 sat),
      k_J2 = Fin (J2 pc),
      k_S = fdiv (Fin (SA pc)) (fpow (scale_r0 sat) 2),
      k_G0 = fdiv (Fin (G0 pc)) (scale_a0 pc sat),
      k_ISP = fdiv (Fin (ISP pc)) (scale_s0 pc sat),
      k_R0 = scale_r0 sat,
      k_RHO = fdiv (Fin (scale_m0 sat)) (fpow (scale_r0 sat) 3)\<rparr>"

definition sample_times :: "int \<Rightarrow> error + real list" where
  \<comment> \<open>\<open>times\<close>, from \<open>resolution = 100 * tf + 1\<close>\<close>
  "sample_times tf = linspace 0 1 (100 * tf + 1)"

definition t_span :: "int \<Rightarrow> real \<times> real" where
  \<comment> \<open>the span \<open>[0, tf]\<close> given to the solver\<close>
  "t_span tf = (0, real_of_int tf)"

definition redimensionalize :: "fl \<Rightarrow> fl list list \<Rightarrow> fl list list" where
  \<comment> \<open>\<open>r * r0\<close> on a two-dimensional array\<close>
  "redimensionalize r0 r = map (map (\<lambda>x. fmul x r0)) r"

text \<open>
  The function is given the satellite object and returns the position history; the
  model returns the satellite beside it, as the call leaves it, so that what the call
  does to the object is part of its result. Indexing \<open>sol.y[0:3, :]\<close> raises TypeError
  when \<open>sol.y\<close> is a Python list.
\<close>

definition get_trajectory_ODE ::
  "phys_constants \<Rightarrow> ivp_solver \<Rightarrow> satellite \<Rightarrow> int \<Rightarrow> (real \<Rightarrow> real list)
     \<Rightarrow> (error + fl list list) \<times> satellite" where
  "get_trajectory_ODE pc solve_ivp sat tf u =
     (case initial_state pc sat of
        Inl e \<Rightarrow> (Inl e, sat)
      | Inr y0 \<Rightarrow>
          let const = normalized_constants pc sat
          in case sample_times tf of
               Inl e \<Rightarrow> (Inl e, sat)
             | Inr times_ \<Rightarrow>
                 (case solve_ivp (\<lambda>tau y. satellite_dynamics pc tau y u (real_of_int tf) const)
                         (t_span tf) y0 times_ 0.001 of
                    Inl e \<Rightarrow> (Inl e, sat)
                  | Inr sol \<Rightarrow>
                      (case sol_y sol of
                         PyList \<Rightarrow> (Inl TypeError, sat)
                       | NdArray ys \<Rightarrow>
                           let r = slice 0 3 ys;
                               pos = redimensionalize (scale_r0 sat) r
                           in (Inr pos, sat))))"

subsection \<open>The run over all satellites\<close>

fun run_loop ::
  "phys_constants \<Rightarrow> ivp_solver \<Rightarrow> controller \<Rightarrow> int \<Rightarrow> satellite list
     \<Rightarrow> (nat \<rightharpoonup> fl list list) \<Rightarrow> (error + (nat \<rightharpoonup> fl list list)) \<times> satellite list" where
  "run_loop pc solve_ivp c tf [] pos_dict = (Inr pos_dict, [])"
| "run_loop pc solve_ivp c tf (sat # rest) pos_dict =
     (let u = get_u_func c
      in case get_trajectory_ODE pc solve_ivp sat tf u of
           (Inl e, sat') \<Rightarrow> (Inl e, sat' # rest)
         | (Inr curr_pos, sat') \<Rightarrow>
             (case run_loop pc solve_ivp c tf rest (pos_dict(sat_id sat' \<mapsto> curr_pos)) of
                (res, rest') \<Rightarrow> (res, sat' # rest')))"

definition run ::
  "phys_constants \<Rightarrow> ivp_solver \<Rightarrow> simulator \<Rightarrow> int
     \<Rightarrow> (error + (nat \<rightharpoonup> fl list list)) \<times> simulator" where
  "run pc solve_ivp sim tf =
     (case run_loop pc solve_ivp (ctrl sim) tf (sats sim) Map.empty of
        (Inl e, ss) \<Rightarrow> (Inl e, sim\<lparr>sats := ss\<rparr>)
      | (Inr pos_dict, ss) \<Rightarrow> (Inr pos_dict, sim\<lparr>sim_data := pos_dict, sats := ss\<rparr>))"

subsection \<open>The fixed-step path\<close>

definition update_satellite_state :: "phys_constants \<Rightarrow> satellite \<Rightarrow> real \<Rightarrow> fl list \<times> fl list \<times> fl" where
  \<comment> \<open>the position, velocity and mass assigned to the satellite object\<close>
  "update_satellite_state pc sat time_step =
     (let position_next = vadd (scal (Fin time_step) (map Fin (velocity sat))) (map Fin (position sat));
          accel = vadd (scal (fneg (fdiv (Fin (MU_EARTH pc)) (fpow (norm_v (map Fin (position sat))) 3)))
                             (map Fin (position sat)))
                       (vdiv (map Fin (thrust sat)) (Fin (mass sat)));
          velocity_next = vadd (scal (Fin time_step) accel) (map Fin (velocity sat));
          mass_dot = fmul (fdiv (norm_v (map Fin (thrust sat))) (Fin (G0 pc))) (Fin (ISP pc));
          mass_next = fadd (fmul mass_dot (Fin time_step)) (Fin (mass sat))
      in (position_next, velocity_next, mass_next))"

subsection \<open>What the solver is asked and what it answers\<close>

definition within_span :: "real \<times> real \<Rightarrow> real list \<Rightarrow> bool" where
  \<comment> \<open>every sample point lies in the closed span\<close>
  "within_span sp ts = list_all (\<lambda>t. fst sp \<le> t \<and> t \<le> snd sp) ts"


definition samples_every_point :: "ivp_solver \<Rightarrow> bool" where
  \<comment> \<open>The solver's answer on a span of positive length and a nonempty \<open>t_eval\<close>: a
      successful result is an array with one row for each component of the initial
      state and one column for each point of \<open>t_eval\<close>.\<close>
  "samples_every_point solve_ivp =
     (\<forall>f sp y0 ts h res. fst sp < snd sp \<longrightarrow> ts \<noteq> [] \<longrightarrow>
        solve_ivp f sp y0 ts h = Inr res \<longrightarrow> sol_success res \<longrightarrow>
        (\<exists>ys. sol_y res = NdArray ys \<and> length ys = length y0
               \<and> list_all (\<lambda>row. length row = length ts) ys))"

definition resting_solver :: ivp_solver where
  \<comment> \<open>An example of a solver, for use at concrete inputs. It treats its arguments as
      \<open>solve_ivp\<close> does: an initial state that is not finite, or a sample point outside
      the span, raises ValueError; on a span of length zero no sample point is
      collected and the result, a success, holds the empty list. Otherwise it answers
      with the initial state at every sample point.\<close>
  "resting_solver f sp y0 ts h =
     (if \<not> list_all is_Fin y0 then Inl ValueError
      else if \<not> within_span sp ts then Inl ValueError
      else if fst sp = snd sp \<or> ts = [] then Inr \<lparr>sol_success = True, sol_y = PyList\<rparr>
      else Inr \<lparr>sol_success = True, sol_y = NdArray (map (\<lambda>c. replicate (length ts) c) y0)\<rparr>)"

subsection \<open>States of a Runge-Kutta integration\<close>

text \<open>
  The solver is not part of the source. What every Runge-Kutta method (the solver's
  default among them) computes from the right-hand side \<open>f\<close> is this: each new state,
  and each sampled state, is an earlier state plus a weighted sum of values \<open>f t z\<close>
  taken at stage states \<open>z\<close> of the state's shape, the weights being finite. A stage
  is the weight, the time, the stage state and the value of \<open>f\<close> there.
\<close>

fun weighted_sum :: "(real \<times> real \<times> fl list \<times> fl list) list \<Rightarrow> fl list" where
  "weighted_sum [] = replicate 7 (Fin 0)"
| "weighted_sum ((w, t, z, k) # stages) = vadd (scal (Fin w) k) (weighted_sum stages)"

fun stages_of ::
  "(real \<Rightarrow> fl list \<Rightarrow> error + fl list) \<Rightarrow> (real \<times> real \<times> fl list \<times> fl list) list \<Rightarrow> bool" where
  "stages_of f [] = True"
| "stages_of f ((w, t, z, k) # stages) = (length z = 7 \<and> f t z = Inr k \<and> stages_of f stages)"

inductive integration_state ::
  "(real \<Rightarrow> fl list \<Rightarrow> error + fl list) \<Rightarrow> fl list \<Rightarrow> fl list \<Rightarrow> bool"
  for f :: "real \<Rightarrow> fl list \<Rightarrow> error + fl list" and y0 :: "fl list" where
  start: "integration_state f y0 y0"
| advance: "integration_state f y0 y \<Longrightarrow> stages_of f stages
     \<Longrightarrow> integration_state f y0 (vadd y (weighted_sum stages))"

section \<open>Properties\<close>

text \<open>C6: the density model returns the fixed value 9.983E-13 whatever position and
  reference radius it is given.\<close>

theorem get_atmo_density_constant:
  "get_atmo_density pc r r0 = 9.983 / 10 ^ 13
   \<and> get_atmo_density pc r r0 = get_atmo_density pc' r' r0'"
  by (simp add: get_atmo_density_def)

subsection \<open>Sums and norms of finite numbers\<close>

lemma fsum_Fin: "fsum (map Fin xs) = Fin (sum_list xs)"
  by (induction xs) (simp_all add: fsum_def)

lemma norm_v_Fin: "norm_v (map Fin xs) = Fin (sqrt (sum_list (map (\<lambda>x. x ^ 2) xs)))"
proof -
  have "map (\<lambda>x. fpow x 2) (map Fin xs) = map Fin (map (\<lambda>x. x ^ 2) xs)"
    by simp
  moreover have "0 \<le> sum_list (map (\<lambda>x. x ^ 2) xs)"
    by (auto intro!: sum_list_nonneg)
  ultimately show ?thesis
    by (simp only: norm_v_def fsum_Fin) simp
qed

lemma norm_v_simps:
  "norm_v [] = Fin 0" "norm_v [Fin 1, Fin 0, Fin 0] = Fin 1" "norm_v [Fin 0, Fin 1, Fin 0] = Fin 1"
  "norm_v [Fin 0, Fin 0, Fin 0] = Fin 0"
  by (simp_all add: norm_v_def fsum_def)

subsection \<open>The derivative\<close>

text \<open>C2: on a 7-component finite state with nonzero position norm and nonzero mass,
  and a control function giving a 3-vector, the dynamics function returns \<open>tf\<close> times
  the 7-component vector of the velocity, the acceleration and the mass rate, the
  acceleration being the sum of central gravity, the J2 term, the thrust term
  \<open>u(tau)/m\<close> and the drag term.\<close>

theorem satellite_dynamics_terms:
  assumes y: "y = [Fin rx, Fin ry, Fin rz, Fin vx, Fin vy, Fin vz, Fin m]"
    and u: "u tau = [ux, uy, uz]"
    and r: "norm_v [Fin rx, Fin ry, Fin rz] \<noteq> Fin 0"
    and m: "m \<noteq> 0"
  shows "satellite_dynamics pc tau y u tf c =
     (let r = [Fin rx, Fin ry, Fin rz];
          v = [Fin vx, Fin vy, Fin vz];
          rn = norm_v r;
          q = fmul (Fin 5) (fpow (fdiv (Fin rz) rn) 2);
          a_g = scal (fdiv (fneg (k_MU c)) (fpow rn 3)) r;
          a_j2 = scal (fdiv (fmul (fmul (fmul (Fin 1.5) (k_J2 c)) (k_MU c)) (fpow (k_R_E c) 2))
                            (fpow rn 5))
                   [fmul (fsub q (Fin 1)) (Fin rx), fmul (fsub q (Fin 1)) (Fin ry),
                    fmul (fsub q (Fin 3)) (Fin rz)];
          a_u = [Fin (ux / m), Fin (uy / m), Fin (uz / m)];
          a_d = scal (fmul (fmul (fmul (fmul (fmul (Fin (- (1 / 2))) (Fin (C_D pc))) (k_S c))
                                       (Fin (1 / m)))
                                 (fdiv (Fin (get_atmo_density pc r (k_R0 c))) (k_RHO c)))
                           (norm_v v)) v;
          a = vadd (vadd (vadd a_g a_j2) a_u) a_d;
          mdot = fdiv (fneg (norm_v [])) (fmul (k_G0 c) (k_ISP c))
      in Inr (scal (Fin tf) (v @ a @ [mdot])))"
proof -
  obtain rn where rn: "norm_v [Fin rx, Fin ry, Fin rz] = Fin rn"
    using norm_v_Fin[of "[rx, ry, rz]"] by simp
  show ?thesis
    unfolding y using rn m
    by (simp add: satellite_dynamics_def slice_def broadcast3_def vdiv_def u np_dot_def Let_def
        fsum_def)
qed

theorem satellite_dynamics_terms_witness:
  "norm_v [Fin 1, Fin 0, Fin 0] \<noteq> Fin 0 \<and> (1::real) \<noteq> 0 \<and>
   satellite_dynamics \<lparr>MU_EARTH = 1, R_EARTH = 1, J2 = 1, C_D = 2, SA = 1, G0 = 1, ISP = 1\<rparr> 0
     [Fin 1, Fin 0, Fin 0, Fin 0, Fin 1, Fin 0, Fin 1] (\<lambda>t. [1, 0, 0]) 2
     \<lparr>k_MU = Fin 1, k_R_E = Fin 1, k_J2 = Fin 1, k_S = Fin 1, k_G0 = Fin 1, k_ISP = Fin 1,
      k_R0 = Fin 1, k_RHO = Fin 1\<rparr>
   = Inr [Fin 0, Fin 2, Fin 0, Fin (- 3), Fin (- (2 * 9.983 / 10 ^ 13)), Fin 0, Fin 0]"
  using satellite_dynamics_terms[of "[Fin 1, Fin 0, Fin 0, Fin 0, Fin 1, Fin 0, Fin 1]"
     1 0 0 0 1 0 1 "(\<lambda>t. [1, 0, 0])" 0 1 0 0
     "\<lparr>MU_EARTH = 1, R_EARTH = 1, J2 = 1, C_D = 2, SA = 1, G0 = 1, ISP = 1\<rparr>" 2
     "\<lparr>k_MU = Fin 1, k_R_E = Fin 1, k_J2 = Fin 1, k_S = Fin 1, k_G0 = Fin 1, k_ISP = Fin 1,
        k_R0 = Fin 1, k_RHO = Fin 1\<rparr>"]
  by (simp add: norm_v_simps scal_def vadd_def get_atmo_density_def Let_def)

text \<open>C1: the mass rate should be \<open>- |u(tau)| / (G0 * ISP)\<close> times \<open>tf\<close>. At the state
  \<open>[1, 0, 0, 0, 1, 0, 1]\<close> with the constant thrust \<open>[1, 0, 0]\<close>, \<open>G0 = ISP = 1\<close> and
  \<open>tf = 1\<close> that is \<open>- 1\<close>; the code returns the mass rate \<open>0\<close>, while the same thrust
  does enter the acceleration (it cancels gravity there).\<close>

theorem mass_flow_ignores_control:
  "satellite_dynamics \<lparr>MU_EARTH = 1, R_EARTH = 1, J2 = 0, C_D = 0, SA = 1, G0 = 1, ISP = 1\<rparr> 0
     [Fin 1, Fin 0, Fin 0, Fin 0, Fin 1, Fin 0, Fin 1] (\<lambda>t. [1, 0, 0]) 1
     \<lparr>k_MU = Fin 1, k_R_E = Fin 1, k_J2 = Fin 0, k_S = Fin 1, k_G0 = Fin 1, k_ISP = Fin 1,
      k_R0 = Fin 1, k_RHO = Fin 1\<rparr>
   = Inr [Fin 0, Fin 1, Fin 0, Fin 0, Fin 0, Fin 0, Fin 0]
   \<and> fmul (fdiv (fneg (norm_v (map Fin ((\<lambda>t. [1, 0, 0]) 0)))) (fmul (Fin 1) (Fin 1))) (Fin 1)
       = Fin (- 1)"
  by (simp add: satellite_dynamics_def slice_def broadcast3_def vdiv_def np_dot_def Let_def
        norm_v_simps scal_def vadd_def get_atmo_density_def fsum_def)

subsection \<open>The mass component\<close>

lemma satellite_dynamics_shape:
  assumes "length y = 7" and "satellite_dynamics pc tau y u tf c = Inr yd"
  shows "length yd = 7
    \<and> yd ! 6 = fmul (Fin tf) (fdiv (fneg (norm_v [])) (fmul (k_G0 c) (k_ISP c)))"
proof -
  from assms(2) obtain a_u where a: "broadcast3 (vdiv (map Fin (u tau)) (y ! 6)) = Inr a_u"
    using assms(1) by (auto simp: satellite_dynamics_def Let_def split: sum.splits)
  then have la: "length a_u = 3"
    by (auto simp: broadcast3_def split: if_splits)
  have l1: "length (slice 3 6 y) = 3" "length (slice 0 3 y) = 3" "slice 7 10 y = []"
    using assms(1) by (simp_all add: slice_def)
  from assms a obtain acc where yd: "yd = scal (Fin tf) (slice 3 6 y @ vadd (vadd acc a_u)
         (scal (fmul (fmul (fmul (fmul (fmul (Fin (- 1 / 2)) (Fin (C_D pc))) (k_S c))
                   (fdiv (Fin 1) (y ! 6)))
                 (fdiv (Fin (get_atmo_density pc (slice 0 3 y) (k_R0 c))) (k_RHO c)))
               (norm_v (slice 3 6 y))) (slice 3 6 y))
      @ [fdiv (fneg (norm_v (slice 7 10 y))) (fmul (k_G0 c) (k_ISP c))])"
     and acc: "length acc = 3"
    using l1 by (auto simp: satellite_dynamics_def Let_def vadd_def scal_def np_dot_def)
  show ?thesis
    unfolding yd using l1 la acc
    by (simp add: scal_def vadd_def nth_append)
qed

lemma satellite_dynamics_mass_rate:
  assumes "length y = 7" and "satellite_dynamics pc tau y u tf c = Inr yd"
    and "k_G0 c = Fin g" and "k_ISP c = Fin i" and "g * i \<noteq> 0"
  shows "length yd = 7 \<and> yd ! 6 = Fin 0"
  using satellite_dynamics_shape[OF assms(1,2)] assms(3-5)
  by (simp add: norm_v_simps)

lemma satellite_dynamics_raises:
  assumes "length y = 7" and "satellite_dynamics pc tau y u tf c = Inl e"
  shows "e = ValueError \<and> length (u tau) \<noteq> 3 \<and> length (u tau) \<noteq> 1"
  using assms
  by (auto simp: satellite_dynamics_def Let_def broadcast3_def vdiv_def split: sum.splits if_splits)

lemma weighted_sum_mass:
  assumes "stages_of (\<lambda>tau y. satellite_dynamics pc tau y u tf c) stages"
    and "k_G0 c = Fin g" and "k_ISP c = Fin i" and "g * i \<noteq> 0"
  shows "length (weighted_sum stages) = 7 \<and> weighted_sum stages ! 6 = Fin 0"
  using assms(1)
proof (induction stages)
  case Nil
  show ?case by (simp add: numeral_eq_Suc)
next
  case (Cons s stages)
  obtain w t z k where s: "s = (w, t, z, k)" by (cases s)
  with Cons.prems have z: "length z = 7" and k: "satellite_dynamics pc t z u tf c = Inr k"
    and rest: "stages_of (\<lambda>tau y. satellite_dynamics pc tau y u tf c) stages"
    by simp_all
  from satellite_dynamics_mass_rate[OF z k assms(2-4)] Cons.IH[OF rest] show ?case
    by (simp add: s vadd_def scal_def)
qed

lemma integration_state_mass:
  assumes "integration_state (\<lambda>tau y. satellite_dynamics pc tau y u tf c) y0 y"
    and "length y0 = 7" and "y0 ! 6 = Fin a"
    and "k_G0 c = Fin g" and "k_ISP c = Fin i" and "g * i \<noteq> 0"
  shows "length y = 7 \<and> y ! 6 = Fin a"
  using assms(1,2,3)
proof (induction rule: integration_state.induct)
  case start
  then show ?case by simp
next
  case (advance y stages)
  with weighted_sum_mass[OF advance.hyps(2) assms(4-6)] show ?case
    by (simp add: vadd_def)
qed

lemma initial_state_mass:
  assumes "mass sat \<noteq> 0" and "length (position sat) = 3" and "length (velocity sat) = 3"
  shows "\<exists>y0. initial_state pc sat = Inr y0 \<and> length y0 = 7 \<and> y0 ! 6 = Fin 1"
  using assms by (simp add: initial_state_def vdiv_def scale_m0_def nth_append)

text \<open>C10, as the code has it: for a satellite of nonzero mass (position and velocity
  being 3-vectors) the mass component of the normalized initial state is exactly 1;
  on every 7-component state, with constants whose \<open>G0\<close> and \<open>ISP\<close> are finite and of
  nonzero product, the dynamics function either raises because the control output has
  a shape numpy cannot add to a 3-vector, or returns a 7-component derivative whose
  mass component is exactly 0, whatever the control function; hence every state a
  Runge-Kutta integration reaches from the initial state has mass component 1.\<close>

theorem normalized_mass_stays_one:
  assumes m: "mass sat \<noteq> 0"
    and shape: "length (position sat) = 3" "length (velocity sat) = 3"
  shows "(\<exists>y0. initial_state pc sat = Inr y0 \<and> length y0 = 7 \<and> y0 ! 6 = Fin 1)
    \<and> (\<forall>tau y u tf c g i. length y = 7 \<longrightarrow> k_G0 c = Fin g \<longrightarrow> k_ISP c = Fin i \<longrightarrow> g * i \<noteq> 0 \<longrightarrow>
          (case satellite_dynamics pc tau y u tf c of
             Inl e \<Rightarrow> e = ValueError \<and> length (u tau) \<noteq> 3 \<and> length (u tau) \<noteq> 1
           | Inr yd \<Rightarrow> length yd = 7 \<and> yd ! 6 = Fin 0))
    \<and> (\<forall>u tf c g i y0 y. k_G0 c = Fin g \<longrightarrow> k_ISP c = Fin i \<longrightarrow> g * i \<noteq> 0 \<longrightarrow>
          initial_state pc sat = Inr y0 \<longrightarrow>
          integration_state (\<lambda>tau y. satellite_dynamics pc tau y u tf c) y0 y
            \<longrightarrow> length y = 7 \<and> y ! 6 = Fin 1)"
proof -
  from initial_state_mass[OF m shape]
  obtain y0 where y0: "initial_state pc sat = Inr y0" "length y0 = 7" "y0 ! 6 = Fin 1"
    by blast
  have dyn: "\<And>tau y u tf c g i. length y = 7 \<Longrightarrow> k_G0 c = Fin g \<Longrightarrow> k_ISP c = Fin i
          \<Longrightarrow> g * i \<noteq> 0 \<Longrightarrow>
          (case satellite_dynamics pc tau y u tf c of
             Inl e \<Rightarrow> e = ValueError \<and> length (u tau) \<noteq> 3 \<and> length (u tau) \<noteq> 1
           | Inr yd \<Rightarrow> length yd = 7 \<and> yd ! 6 = Fin 0)"
    using satellite_dynamics_mass_rate satellite_dynamics_raises
    by (simp split: sum.split)
  have integ: "\<And>u tf c g i y0' y. k_G0 c = Fin g \<Longrightarrow> k_ISP c = Fin i \<Longrightarrow> g * i \<noteq> 0 \<Longrightarrow>
          initial_state pc sat = Inr y0' \<Longrightarrow>
          integration_state (\<lambda>tau y. satellite_dynamics pc tau y u tf c) y0' y
            \<Longrightarrow> length y = 7 \<and> y ! 6 = Fin 1"
  proof -
    fix u tf c g i y0' y
    assume c: "k_G0 c = Fin g" "k_ISP c = Fin i" "g * i \<noteq> 0"
      and i: "initial_state pc sat = Inr y0'"
      and s: "integration_state (\<lambda>tau y. satellite_dynamics pc tau y u tf c) y0' y"
    from i y0 have "y0' = y0" by simp
    with integration_state_mass[OF s _ _ c, of 1] y0 show "length y = 7 \<and> y ! 6 = Fin 1"
      by simp
  qed
  from y0 dyn integ show ?thesis by blast
qed

theorem normalized_mass_stays_one_witness:
  "mass \<lparr>sat_id = 0, position = [1, 0, 0], velocity = [0, 0, 0], mass = 2, thrust = [0, 0, 0]\<rparr> \<noteq> 0
   \<and> initial_state \<lparr>MU_EARTH = 1, R_EARTH = 1, J2 = 0, C_D = 0, SA = 1, G0 = 1, ISP = 1\<rparr>
        \<lparr>sat_id = 0, position = [1, 0, 0], velocity = [0, 0, 0], mass = 2, thrust = [0, 0, 0]\<rparr>
       = Inr [Fin 1, Fin 0, Fin 0, Fin 0, Fin 0, Fin 0, Fin 1]
   \<and> satellite_dynamics \<lparr>MU_EARTH = 1, R_EARTH = 1, J2 = 0, C_D = 0, SA = 1, G0 = 1, ISP = 1\<rparr> 0
        [Fin 1, Fin 0, Fin 0, Fin 0, Fin 0, Fin 0, Fin 1] (\<lambda>t. [0, 1, 0]) 1
        \<lparr>k_MU = Fin 1, k_R_E = Fin 1, k_J2 = Fin 0, k_S = Fin 1, k_G0 = Fin 1, k_ISP = Fin 1,
         k_R0 = Fin 1, k_RHO = Fin 1\<rparr>
       = Inr [Fin 0, Fin 0, Fin 0, Fin (- 1), Fin 1, Fin 0, Fin 0]
   \<and> integration_state
        (\<lambda>tau y. satellite_dynamics \<lparr>MU_EARTH = 1, R_EARTH = 1, J2 = 0, C_D = 0, SA = 1, G0 = 1, ISP = 1\<rparr>
           tau y (\<lambda>t. [0, 1, 0]) 1
           \<lparr>k_MU = Fin 1, k_R_E = Fin 1, k_J2 = Fin 0, k_S = Fin 1, k_G0 = Fin 1, k_ISP = Fin 1,
            k_R0 = Fin 1, k_RHO = Fin 1\<rparr>)
        [Fin 1, Fin 0, Fin 0, Fin 0, Fin 0, Fin 0, Fin 1]
        [Fin 1, Fin 0, Fin 0, Fin (- 1 / 2), Fin (1 / 2), Fin 0, Fin 1]
   \<and> [Fin 1, Fin 0, Fin 0, Fin (- 1 / 2), Fin (1 / 2), Fin 0, Fin 1] ! 6 = Fin 1"
proof -
  let ?pc = "\<lparr>MU_EARTH = 1, R_EARTH = 1, J2 = 0, C_D = 0, SA = 1, G0 = 1, ISP = 1\<rparr>"
  let ?sat = "\<lparr>sat_id = 0, position = [1, 0, 0], velocity = [0, 0, 0], mass = 2, thrust = [0, 0, 0]\<rparr>"
  let ?c = "\<lparr>k_MU = Fin 1, k_R_E = Fin 1, k_J2 = Fin 0, k_S = Fin 1, k_G0 = Fin 1, k_ISP = Fin 1,
            k_R0 = Fin 1, k_RHO = Fin 1\<rparr>"
  let ?f = "\<lambda>tau y. satellite_dynamics ?pc tau y (\<lambda>t. [0, 1, 0]) 1 ?c"
  let ?y0 = "[Fin 1, Fin 0, Fin 0, Fin 0, Fin 0, Fin 0, Fin 1]"
  have y0: "initial_state ?pc ?sat = Inr ?y0"
    by (simp add: initial_state_def vdiv_def scale_r0_def scale_m0_def scale_v0_def scale_s0_def
        norm_v_simps)
  have k: "?f 0 ?y0 = Inr [Fin 0, Fin 0, Fin 0, Fin (- 1), Fin 1, Fin 0, Fin 0]"
    by (simp add: satellite_dynamics_def slice_def broadcast3_def vdiv_def np_dot_def Let_def
        norm_v_simps scal_def vadd_def get_atmo_density_def fsum_def)
  have "integration_state ?f ?y0
          (vadd ?y0 (weighted_sum [(1 / 2, 0, ?y0, [Fin 0, Fin 0, Fin 0, Fin (- 1), Fin 1, Fin 0, Fin 0])]))"
    by (rule integration_state.advance[OF integration_state.start]) (simp add: k)
  then have st: "integration_state ?f ?y0 [Fin 1, Fin 0, Fin 0, Fin (- 1 / 2), Fin (1 / 2), Fin 0, Fin 1]"
    by (simp add: vadd_def scal_def numeral_eq_Suc)
  have "mass ?sat \<noteq> 0" "length (position ?sat) = 3" "length (velocity ?sat) = 3"
    by simp_all
  from normalized_mass_stays_one[OF this, of ?pc] st y0 k show ?thesis
    by simp
qed

text \<open>C10 as stated has the mass rate 0 on every input. With \<open>G0 = 0\<close> among the
  constants the mass rate is the quotient 0/0, which is not a number.\<close>

theorem mass_rate_not_finite:
  "satellite_dynamics \<lparr>MU_EARTH = 1, R_EARTH = 1, J2 = 0, C_D = 0, SA = 1, G0 = 1, ISP = 1\<rparr> 0
     [Fin 1, Fin 0, Fin 0, Fin 0, Fin 1, Fin 0, Fin 1] (\<lambda>t. [1, 0, 0]) 1
     \<lparr>k_MU = Fin 1, k_R_E = Fin 1, k_J2 = Fin 0, k_S = Fin 1, k_G0 = Fin 0, k_ISP = Fin 1,
      k_R0 = Fin 1, k_RHO = Fin 1\<rparr>
   = Inr [Fin 0, Fin 1, Fin 0, Fin 0, Fin 0, Fin 0, NotFinite]"
  by (simp add: satellite_dynamics_def slice_def broadcast3_def vdiv_def np_dot_def Let_def
        norm_v_simps scal_def vadd_def get_atmo_density_def fsum_def)

subsection \<open>The scales of the normalization\<close>

lemma scale_r0_Fin: "scale_r0 sat = Fin (sqrt (sum_list (map (\<lambda>x. x ^ 2) (position sat))))"
  by (simp add: scale_r0_def norm_v_Fin)

lemma scales_finite:
  assumes r0: "scale_r0 sat = Fin r0" and nz: "r0 \<noteq> 0" and mu: "0 < MU_EARTH pc"
  shows "0 < r0"
    and "scale_s0 pc sat = Fin (2 * pi * sqrt (r0 ^ 3 / MU_EARTH pc))"
    and "0 < 2 * pi * sqrt (r0 ^ 3 / MU_EARTH pc)"
    and "scale_v0 pc sat = Fin (r0 / (2 * pi * sqrt (r0 ^ 3 / MU_EARTH pc)))"
    and "0 < r0 / (2 * pi * sqrt (r0 ^ 3 / MU_EARTH pc))"
proof -
  have "0 \<le> sum_list (map (\<lambda>x. x ^ 2) (position sat))"
    by (auto intro!: sum_list_nonneg)
  then have "0 \<le> sqrt (sum_list (map (\<lambda>x. x ^ 2) (position sat)))"
    by (simp only: real_sqrt_ge_0_iff)
  moreover have "r0 = sqrt (sum_list (map (\<lambda>x. x ^ 2) (position sat)))"
    using r0 unfolding scale_r0_Fin by simp
  ultimately have "0 \<le> r0" by (simp only:)
  with nz show pos: "0 < r0" by simp
  then have q: "0 < r0 ^ 3 / MU_EARTH pc" using mu by simp
  then show s0: "scale_s0 pc sat = Fin (2 * pi * sqrt (r0 ^ 3 / MU_EARTH pc))"
    using mu by (simp add: scale_s0_def r0)
  from q have "0 < sqrt (r0 ^ 3 / MU_EARTH pc)" by (simp only: real_sqrt_gt_0_iff)
  then show s0pos: "0 < 2 * pi * sqrt (r0 ^ 3 / MU_EARTH pc)" by simp
  then have ne: "2 * pi * sqrt (r0 ^ 3 / MU_EARTH pc) \<noteq> 0" by linarith
  show "scale_v0 pc sat = Fin (r0 / (2 * pi * sqrt (r0 ^ 3 / MU_EARTH pc)))"
    unfolding scale_v0_def r0 s0 using ne by (simp only: fdiv.simps if_False)
  from pos s0pos show "0 < r0 / (2 * pi * sqrt (r0 ^ 3 / MU_EARTH pc))" by simp
qed

lemma normalized_constants_mass_flow:
  assumes r0: "scale_r0 sat = Fin r0" "r0 \<noteq> 0" and mu: "0 < MU_EARTH pc"
    and g: "G0 pc \<noteq> 0" and i: "ISP pc \<noteq> 0"
  shows "\<exists>g i. k_G0 (normalized_constants pc sat) = Fin g
           \<and> k_ISP (normalized_constants pc sat) = Fin i \<and> g * i \<noteq> 0"
proof -
  note sc = scales_finite[OF r0 mu]
  let ?s0 = "2 * pi * sqrt (r0 ^ 3 / MU_EARTH pc)"
  from sc(3) have s0: "?s0 \<noteq> 0" by linarith
  then have s02: "?s0 ^ 2 \<noteq> 0" by (simp only: power_not_zero not_False_eq_True)
  with r0(2) have a0: "r0 / ?s0 ^ 2 \<noteq> 0" by (simp only: divide_eq_0_iff de_Morgan_disj) simp
  have kg: "k_G0 (normalized_constants pc sat) = Fin (G0 pc / (r0 / ?s0 ^ 2))"
    using s02 a0 by (simp only: normalized_constants_def scale_a0_def r0(1) sc(2)
        norm_constants.simps fpow.simps fdiv.simps if_False)
  have ki: "k_ISP (normalized_constants pc sat) = Fin (ISP pc / ?s0)"
    using s0 by (simp only: normalized_constants_def sc(2) norm_constants.simps fdiv.simps if_False)
  have "G0 pc / (r0 / ?s0 ^ 2) \<noteq> 0"
    using g a0 by (simp only: divide_eq_0_iff de_Morgan_disj) simp
  moreover have "ISP pc / ?s0 \<noteq> 0"
    using i s0 by (simp only: divide_eq_0_iff de_Morgan_disj) simp
  ultimately have "G0 pc / (r0 / ?s0 ^ 2) * (ISP pc / ?s0) \<noteq> 0"
    by (simp only: mult_eq_0_iff de_Morgan_disj) simp
  with kg ki show ?thesis by blast
qed

subsection \<open>Sample points and span\<close>

lemma linspace_unit_points:
  assumes "0 \<le> num" and "linspace 0 1 num = Inr ts"
  shows "length ts = nat num \<and> list_all (\<lambda>t. 0 \<le> t \<and> t \<le> 1) ts"
proof (cases "num = 1")
  case True
  with assms show ?thesis by (auto simp: linspace_def)
next
  case False
  then have ts: "ts = map (\<lambda>i. real i * (1 / real (nat num - 1))) [0 ..< nat num]"
    using assms by (simp add: linspace_def)
  have "\<And>i. i < nat num \<Longrightarrow> real i * (1 / real (nat num - 1)) \<le> 1"
  proof -
    fix i assume i: "i < nat num"
    show "real i * (1 / real (nat num - 1)) \<le> 1"
    proof (cases "nat num - 1 = 0")
      case True
      then show ?thesis by simp
    next
      case False
      then have "real i \<le> real (nat num - 1)" using i by simp
      with False show ?thesis by (simp add: divide_le_eq)
    qed
  qed
  then show ?thesis
    unfolding ts by (simp add: list_all_iff)
qed

lemma sample_times_points:
  assumes "0 \<le> tf"
  shows "\<exists>ts. sample_times tf = Inr ts \<and> int (length ts) = 100 * tf + 1 \<and> ts \<noteq> []
           \<and> within_span (0, 1) ts \<and> within_span (t_span tf) ts"
proof -
  from assms have n: "0 \<le> 100 * tf + 1" by simp
  then have "\<exists>ts. sample_times tf = Inr ts"
    by (auto simp: sample_times_def linspace_def)
  then obtain ts where ts: "sample_times tf = Inr ts" ..
  from linspace_unit_points[OF n] ts
  have len: "length ts = nat (100 * tf + 1)" and unit: "list_all (\<lambda>t. 0 \<le> t \<and> t \<le> 1) ts"
    by (simp_all add: sample_times_def)
  from len assms have ne: "ts \<noteq> []" by auto
  have "within_span (t_span tf) ts"
  proof (cases "tf = 0")
    case True
    with ts have "ts = [0]" by (simp add: sample_times_def linspace_def)
    then show ?thesis using True by (simp add: within_span_def t_span_def)
  next
    case False
    with assms have "1 \<le> real_of_int tf" by simp
    with unit show ?thesis
      by (auto simp: within_span_def t_span_def list_all_iff)
  qed
  with ts len unit ne assms show ?thesis
    by (auto simp: within_span_def)
qed

text \<open>C3, as the code has it: for an orbit count \<open>tf \<ge> 0\<close> the sample points are the
  \<open>100 tf + 1\<close> equally spaced points of \<open>[0, 1]\<close>, the span is \<open>[0, tf]\<close>, and every
  sample point lies within the span (at \<open>tf = 0\<close> the one sample point is 0, in the
  span \<open>[0, 0]\<close>); for \<open>tf < 0\<close> the sample points are never built, \<open>linspace\<close> raises
  ValueError.\<close>

theorem sample_points_within_span:
  "(case sample_times tf of
      Inl e \<Rightarrow> tf < 0 \<and> e = ValueError
    | Inr ts \<Rightarrow> 0 \<le> tf \<and> int (length ts) = 100 * tf + 1
         \<and> t_span tf = (0, real_of_int tf) \<and> within_span (0, 1) ts
         \<and> within_span (t_span tf) ts)"
proof (cases "tf < 0")
  case True
  then show ?thesis by (simp add: sample_times_def linspace_def)
next
  case False
  then have "0 \<le> tf" by simp
  from sample_times_points[OF this] False show ?thesis
    by (auto simp: t_span_def)
qed

text \<open>C3 as stated says that for \<open>tf < 1\<close> some sample point lies outside the span. At
  \<open>tf = 0\<close> the only sample point is 0 and the span is \<open>[0, 0]\<close>.\<close>

theorem zero_orbits_within_span:
  "(0::int) < 1 \<and> sample_times 0 = Inr [0] \<and> t_span 0 = (0, 0) \<and> within_span (t_span 0) [0]"
  by (simp add: sample_times_def linspace_def t_span_def within_span_def)

subsection \<open>Normalization and back\<close>

lemma resting_solver_answer:
  assumes "list_all is_Fin y0" and "within_span sp ts" and "fst sp < snd sp" and "ts \<noteq> []"
  shows "resting_solver f sp y0 ts h
           = Inr \<lparr>sol_success = True, sol_y = NdArray (map (\<lambda>c. replicate (length ts) c) y0)\<rparr>"
  using assms by (simp add: resting_solver_def)

lemma resting_run:
  assumes y0: "initial_state pc sat = Inr y0" and fin: "list_all is_Fin y0" and tf: "1 \<le> tf"
  shows "fst (get_trajectory_ODE pc resting_solver sat tf u)
           = Inr (redimensionalize (scale_r0 sat)
                    (slice 0 3 (map (\<lambda>c. replicate (nat (100 * tf + 1)) c) y0)))"
proof -
  from tf have "0 \<le> tf" by simp
  from sample_times_points[OF this] obtain ts where ts: "sample_times tf = Inr ts"
    and len: "int (length ts) = 100 * tf + 1" and ne: "ts \<noteq> []"
    and w: "within_span (t_span tf) ts"
    by blast
  from tf have sp: "fst (t_span tf) < snd (t_span tf)" by (simp add: t_span_def)
  from len have l: "length ts = nat (100 * tf + 1)" by simp
  show ?thesis
    by (simp add: get_trajectory_ODE_def y0 ts Let_def resting_solver_answer[OF fin w sp ne] l)
qed

lemma get_trajectory_ODE_result:
  assumes "fst (get_trajectory_ODE pc solve_ivp sat tf u) = Inr pos"
  shows "\<exists>y0 ts sol ys. initial_state pc sat = Inr y0 \<and> sample_times tf = Inr ts
           \<and> solve_ivp (\<lambda>tau y. satellite_dynamics pc tau y u (real_of_int tf)
                  (normalized_constants pc sat)) (t_span tf) y0 ts 0.001 = Inr sol
           \<and> sol_y sol = NdArray ys
           \<and> pos = map (map (\<lambda>x. fmul x (scale_r0 sat))) (slice 0 3 ys)"
  using assms
  by (auto simp: get_trajectory_ODE_def Let_def redimensionalize_def
      split: if_splits sum.splits sol_values.splits)

text \<open>C5: for a satellite with nonzero position norm \<open>r0\<close> and nonzero mass (3-vectors
  for position and velocity, a positive gravitational parameter), the normalized
  initial state is built without error, its position part times \<open>r0\<close> is the physical
  position and its velocity part times \<open>v0 = r0 / s0\<close>, with
  \<open>s0 = 2 pi sqrt (r0^3 / MU_EARTH)\<close>, is the physical velocity; and whenever the
  adaptive path returns a position history, it is the first three rows of the solver's
  array, every sample multiplied by \<open>r0\<close>.\<close>

theorem normalization_round_trip:
  assumes r0: "scale_r0 sat = Fin r0" "r0 \<noteq> 0" and m: "mass sat \<noteq> 0" and mu: "0 < MU_EARTH pc"
    and shape: "length (position sat) = 3" "length (velocity sat) = 3"
  shows "\<exists>y0. initial_state pc sat = Inr y0
    \<and> map (\<lambda>x. fmul x (scale_r0 sat)) (slice 0 3 y0) = map Fin (position sat)
    \<and> map (\<lambda>x. fmul x (scale_v0 pc sat)) (slice 3 6 y0) = map Fin (velocity sat)
    \<and> scale_v0 pc sat = fdiv (scale_r0 sat) (scale_s0 pc sat)
    \<and> scale_s0 pc sat = Fin (2 * pi * sqrt (r0 ^ 3 / MU_EARTH pc))
    \<and> (\<forall>solve_ivp tf u pos. fst (get_trajectory_ODE pc solve_ivp sat tf u) = Inr pos \<longrightarrow>
         (\<exists>ts sol ys. sample_times tf = Inr ts
           \<and> solve_ivp (\<lambda>tau y. satellite_dynamics pc tau y u (real_of_int tf)
                  (normalized_constants pc sat)) (t_span tf) y0 ts 0.001 = Inr sol
           \<and> sol_y sol = NdArray ys
           \<and> pos = map (map (\<lambda>x. fmul x (scale_r0 sat))) (slice 0 3 ys)))"
proof -
  note sc = scales_finite[OF r0 mu]
  let ?v0 = "r0 / (2 * pi * sqrt (r0 ^ 3 / MU_EARTH pc))"
  have v0: "scale_v0 pc sat = Fin ?v0"
    by (rule sc(4))
  have v0nz: "?v0 \<noteq> 0"
    using sc(5) by linarith
  let ?y0 = "vdiv (map Fin (position sat)) (scale_r0 sat)
               @ vdiv (map Fin (velocity sat)) (scale_v0 pc sat) @ [Fin (mass sat / scale_m0 sat)]"
  have y0: "initial_state pc sat = Inr ?y0"
    using m by (simp add: initial_state_def scale_m0_def)
  have p: "map (\<lambda>x. fmul x (scale_r0 sat)) (slice 0 3 ?y0) = map Fin (position sat)"
    using shape r0 by (simp add: slice_def vdiv_def o_def)
  have v: "map (\<lambda>x. fmul x (scale_v0 pc sat)) (slice 3 6 ?y0) = map Fin (velocity sat)"
    unfolding v0 using shape r0 v0nz by (simp add: slice_def vdiv_def o_def)
  have vv: "scale_v0 pc sat = fdiv (scale_r0 sat) (scale_s0 pc sat)"
    by (simp add: scale_v0_def)
  have traj: "\<And>solve_ivp tf u pos. fst (get_trajectory_ODE pc solve_ivp sat tf u) = Inr pos \<Longrightarrow>
         (\<exists>ts sol ys. sample_times tf = Inr ts
           \<and> solve_ivp (\<lambda>tau y. satellite_dynamics pc tau y u (real_of_int tf)
                  (normalized_constants pc sat)) (t_span tf) ?y0 ts 0.001 = Inr sol
           \<and> sol_y sol = NdArray ys
           \<and> pos = map (map (\<lambda>x. fmul x (scale_r0 sat))) (slice 0 3 ys))"
    using get_trajectory_ODE_result[of pc _ sat] y0 by fastforce
  from y0 p v vv sc(2) traj show ?thesis by blast
qed

theorem normalization_round_trip_witness:
  "scale_r0 \<lparr>sat_id = 0, position = [1, 0, 0], velocity = [0, 2, 0], mass = 2, thrust = [0, 0, 0]\<rparr> = Fin 1
   \<and> initial_state \<lparr>MU_EARTH = 1, R_EARTH = 1, J2 = 0, C_D = 0, SA = 1, G0 = 1, ISP = 1\<rparr>
        \<lparr>sat_id = 0, position = [1, 0, 0], velocity = [0, 2, 0], mass = 2, thrust = [0, 0, 0]\<rparr>
       = Inr [Fin 1, Fin 0, Fin 0, Fin 0, Fin (4 * pi), Fin 0, Fin 1]
   \<and> scale_v0 \<lparr>MU_EARTH = 1, R_EARTH = 1, J2 = 0, C_D = 0, SA = 1, G0 = 1, ISP = 1\<rparr>
        \<lparr>sat_id = 0, position = [1, 0, 0], velocity = [0, 2, 0], mass = 2, thrust = [0, 0, 0]\<rparr>
       = Fin (1 / (2 * pi))
   \<and> map (\<lambda>x. fmul x (Fin 1)) (slice 0 3 [Fin 1, Fin 0, Fin 0, Fin 0, Fin (4 * pi), Fin 0, Fin 1])
       = map Fin [1, 0, 0]
   \<and> map (\<lambda>x. fmul x (Fin (1 / (2 * pi))))
          (slice 3 6 [Fin 1, Fin 0, Fin 0, Fin 0, Fin (4 * pi), Fin 0, Fin 1])
       = map Fin [0, 2, 0]
   \<and> (\<exists>pos. fst (get_trajectory_ODE \<lparr>MU_EARTH = 1, R_EARTH = 1, J2 = 0, C_D = 0, SA = 1, G0 = 1, ISP = 1\<rparr>
          resting_solver
          \<lparr>sat_id = 0, position = [1, 0, 0], velocity = [0, 2, 0], mass = 2, thrust = [0, 0, 0]\<rparr>
          1 (\<lambda>t. [0, 0, 0])) = Inr pos
        \<and> pos = map (map (\<lambda>x. fmul x (Fin 1)))
                  (slice 0 3 (map (\<lambda>c. replicate 101 c)
                     [Fin 1, Fin 0, Fin 0, Fin 0, Fin (4 * pi), Fin 0, Fin 1])))"
proof -
  let ?pc = "\<lparr>MU_EARTH = 1, R_EARTH = 1, J2 = 0, C_D = 0, SA = 1, G0 = 1, ISP = 1\<rparr>"
  let ?sat = "\<lparr>sat_id = 0, position = [1, 0, 0], velocity = [0, 2, 0], mass = 2, thrust = [0, 0, 0]\<rparr>"
  let ?y0 = "[Fin 1, Fin 0, Fin 0, Fin 0, Fin (4 * pi), Fin 0, Fin 1]"
  have r0: "scale_r0 ?sat = Fin 1"
    by (simp add: scale_r0_def norm_v_simps)
  have v0: "scale_v0 ?pc ?sat = Fin (1 / (2 * pi))"
    by (simp add: scale_v0_def scale_s0_def r0)
  have y0: "initial_state ?pc ?sat = Inr ?y0"
    by (simp add: initial_state_def vdiv_def r0 v0 scale_m0_def)
  have fin: "list_all is_Fin ?y0" by simp
  have n: "nat (100 * 1 + 1) = 101" by simp
  have run: "fst (get_trajectory_ODE ?pc resting_solver ?sat 1 (\<lambda>t. [0, 0, 0]))
               = Inr (map (map (\<lambda>x. fmul x (Fin 1))) (slice 0 3 (map (\<lambda>c. replicate 101 c) ?y0)))"
    using resting_run[OF y0 fin, of 1 "\<lambda>t. [0, 0, 0]"]
    by (simp only: n r0 redimensionalize_def)
  have h: "scale_r0 ?sat = Fin 1" "(1::real) \<noteq> 0" "mass ?sat \<noteq> 0" "0 < MU_EARTH ?pc"
    "length (position ?sat) = 3" "length (velocity ?sat) = 3"
    by (simp_all add: r0)
  from normalization_round_trip[OF h]
  obtain y0' where a: "initial_state ?pc ?sat = Inr y0'"
    and p: "map (\<lambda>x. fmul x (scale_r0 ?sat)) (slice 0 3 y0') = map Fin (position ?sat)"
    and v: "map (\<lambda>x. fmul x (scale_v0 ?pc ?sat)) (slice 3 6 y0') = map Fin (velocity ?sat)"
    by (elim exE conjE)
  from a y0 have e: "y0' = ?y0" by simp
  from p have p': "map (\<lambda>x. fmul x (Fin 1)) (slice 0 3 ?y0) = map Fin [1, 0, 0]"
    unfolding e r0 by simp
  from v have v': "map (\<lambda>x. fmul x (Fin (1 / (2 * pi)))) (slice 3 6 ?y0) = map Fin [0, 2, 0]"
    unfolding e v0 by simp
  from r0 y0 v0 p' v' run show ?thesis
    by (intro conjI exI[of _ "map (map (\<lambda>x. fmul x (Fin 1)))
          (slice 0 3 (map (\<lambda>c. replicate 101 c) ?y0))"]) (rule refl | assumption)+
qed

subsection \<open>Output cardinality\<close>

lemma resting_solver_samples: "samples_every_point resting_solver"
  unfolding samples_every_point_def
proof (intro allI impI)
  fix f :: "real \<Rightarrow> fl list \<Rightarrow> error + fl list" and sp :: "real \<times> real" and y0 :: "fl list"
    and ts :: "real list" and h :: real and res :: ode_result
  assume sp: "fst sp < snd sp" and ts: "ts \<noteq> []"
    and r: "resting_solver f sp y0 ts h = Inr res" and "sol_success res"
  from r sp ts have "sol_y res = NdArray (map (\<lambda>c. replicate (length ts) c) y0)"
    by (auto simp: resting_solver_def split: if_splits)
  then show "\<exists>ys. sol_y res = NdArray ys \<and> length ys = length y0
               \<and> list_all (\<lambda>row. length row = length ts) ys"
    by (simp add: list_all_iff)
qed


text \<open>C4, as the code has it: when the solver keeps its word (on a span of positive length
  a successful result has a column for every sample point) and the integration of a
  satellite with a 3-vector position succeeds for an orbit count \<open>tf \<ge> 1\<close>, the
  adaptive path returns a position history of 3 rows with exactly \<open>100 tf + 1\<close>
  samples each.\<close>

theorem trajectory_sample_count:
  assumes contract: "samples_every_point solve_ivp"
    and tf: "1 \<le> tf"
    and shape: "length (position sat) = 3"
    and y0: "initial_state pc sat = Inr y0"
    and ts: "sample_times tf = Inr ts"
    and res: "solve_ivp (\<lambda>tau y. satellite_dynamics pc tau y u (real_of_int tf)
                 (normalized_constants pc sat)) (t_span tf) y0 ts 0.001 = Inr res"
    and ok: "sol_success res"
  shows "\<exists>pos. fst (get_trajectory_ODE pc solve_ivp sat tf u) = Inr pos
           \<and> length pos = 3 \<and> list_all (\<lambda>row. int (length row) = 100 * tf + 1) pos"
proof -
  from tf have "0 \<le> tf" by simp
  from sample_times_points[OF this] ts
  have n: "int (length ts) = 100 * tf + 1" and ne: "ts \<noteq> []"
    by auto
  from tf have sp: "fst (t_span tf) < snd (t_span tf)" by (simp add: t_span_def)
  from contract sp ne res ok
  obtain ys where ys: "sol_y res = NdArray ys" and rows: "length ys = length y0"
    and cols: "list_all (\<lambda>row. length row = length ts) ys"
    unfolding samples_every_point_def by blast
  have "3 \<le> length y0"
    using shape y0 by (auto simp: initial_state_def vdiv_def split: if_splits)
  with rows have three: "length (slice 0 3 ys) = 3"
    by (simp add: slice_def)
  have "list_all (\<lambda>row. length row = length ts) (slice 0 3 ys)"
    using cols by (auto simp: slice_def list_all_iff dest: in_set_takeD)
  with n have c: "list_all (\<lambda>row. int (length row) = 100 * tf + 1)
                   (redimensionalize (scale_r0 sat) (slice 0 3 ys))"
    by (simp add: redimensionalize_def list_all_iff)
  have "fst (get_trajectory_ODE pc solve_ivp sat tf u)
          = Inr (redimensionalize (scale_r0 sat) (slice 0 3 ys))"
    using y0 ts res ys by (simp add: get_trajectory_ODE_def Let_def)
  with three c show ?thesis
    by (simp add: redimensionalize_def)
qed

theorem trajectory_sample_count_witness:
  "samples_every_point resting_solver
   \<and> (1::int) \<le> 1
   \<and> (\<exists>ts. sample_times 1 = Inr ts \<and> int (length ts) = 100 * 1 + 1)
   \<and> (\<exists>pos. fst (get_trajectory_ODE \<lparr>MU_EARTH = 1, R_EARTH = 1, J2 = 0, C_D = 0, SA = 1, G0 = 1, ISP = 1\<rparr>
          resting_solver
          \<lparr>sat_id = 0, position = [1, 0, 0], velocity = [0, 2, 0], mass = 2, thrust = [0, 0, 0]\<rparr>
          1 (\<lambda>t. [0, 0, 0])) = Inr pos
        \<and> length pos = 3 \<and> list_all (\<lambda>row. int (length row) = 100 * 1 + 1) pos)"
proof -
  let ?pc = "\<lparr>MU_EARTH = 1, R_EARTH = 1, J2 = 0, C_D = 0, SA = 1, G0 = 1, ISP = 1\<rparr>"
  let ?sat = "\<lparr>sat_id = 0, position = [1, 0, 0], velocity = [0, 2, 0], mass = 2, thrust = [0, 0, 0]\<rparr>"
  let ?y0 = "[Fin 1, Fin 0, Fin 0, Fin 0, Fin (4 * pi), Fin 0, Fin 1]"
  let ?f = "\<lambda>tau y. satellite_dynamics ?pc tau y (\<lambda>t. [0, 0, 0]) (real_of_int 1)
                 (normalized_constants ?pc ?sat)"
  have c: "samples_every_point resting_solver"
    by (rule resting_solver_samples)
  have tf: "(1::int) \<le> 1" by simp
  have r0: "scale_r0 ?sat = Fin 1"
    by (simp add: scale_r0_def norm_v_simps)
  have v0: "scale_v0 ?pc ?sat = Fin (1 / (2 * pi))"
    by (simp add: scale_v0_def scale_s0_def r0)
  have y0: "initial_state ?pc ?sat = Inr ?y0"
    by (simp add: initial_state_def vdiv_def r0 v0 scale_m0_def)
  have fin: "list_all is_Fin ?y0" by simp
  from sample_times_points[of 1]
  obtain ts where ts: "sample_times 1 = Inr ts" and len: "int (length ts) = 100 * 1 + 1"
    and ne: "ts \<noteq> []" and w: "within_span (t_span 1) ts"
    by auto
  have sp: "fst (t_span 1) < snd (t_span 1)" by (simp add: t_span_def)
  have res: "resting_solver ?f (t_span 1) ?y0 ts 0.001
       = Inr \<lparr>sol_success = True, sol_y = NdArray (map (\<lambda>c. replicate (length ts) c) ?y0)\<rparr>"
    by (rule resting_solver_answer[OF fin w sp ne])
  have shape: "length (position ?sat) = 3" by simp
  have ok: "sol_success \<lparr>sol_success = True, sol_y = NdArray (map (\<lambda>c. replicate (length ts) c) ?y0)\<rparr>"
    by simp
  have e: "\<exists>ts. sample_times 1 = Inr ts \<and> int (length ts) = 100 * 1 + 1"
    using ts len by blast
  from trajectory_sample_count[OF c tf shape y0 ts res ok] c tf e show ?thesis
    by (intro conjI)
qed

text \<open>C4 as stated covers every orbit count on which the integration succeeds. At
  \<open>tf = 0\<close> the span has length zero: the solver reports success and collects no
  sample point, its \<open>y\<close> is the empty list, and the adaptive path raises TypeError
  instead of returning a trajectory of one sample.\<close>

theorem zero_orbits_no_trajectory:
  "sample_times 0 = Inr [0]
   \<and> resting_solver
        (\<lambda>tau y. satellite_dynamics \<lparr>MU_EARTH = 1, R_EARTH = 1, J2 = 0, C_D = 0, SA = 1, G0 = 1, ISP = 1\<rparr>
           tau y (\<lambda>t. [0, 0, 0]) (real_of_int 0)
           (normalized_constants \<lparr>MU_EARTH = 1, R_EARTH = 1, J2 = 0, C_D = 0, SA = 1, G0 = 1, ISP = 1\<rparr>
              \<lparr>sat_id = 0, position = [1, 0, 0], velocity = [0, 2, 0], mass = 2, thrust = [0, 0, 0]\<rparr>))
        (t_span 0) [Fin 1, Fin 0, Fin 0, Fin 0, Fin (4 * pi), Fin 0, Fin 1] [0] 0.001
       = Inr \<lparr>sol_success = True, sol_y = PyList\<rparr>
   \<and> fst (get_trajectory_ODE \<lparr>MU_EARTH = 1, R_EARTH = 1, J2 = 0, C_D = 0, SA = 1, G0 = 1, ISP = 1\<rparr>
          resting_solver
          \<lparr>sat_id = 0, position = [1, 0, 0], velocity = [0, 2, 0], mass = 2, thrust = [0, 0, 0]\<rparr>
          0 (\<lambda>t. [0, 0, 0]))
       = Inl TypeError"
proof -
  let ?pc = "\<lparr>MU_EARTH = 1, R_EARTH = 1, J2 = 0, C_D = 0, SA = 1, G0 = 1, ISP = 1\<rparr>"
  let ?sat = "\<lparr>sat_id = 0, position = [1, 0, 0], velocity = [0, 2, 0], mass = 2, thrust = [0, 0, 0]\<rparr>"
  let ?y0 = "[Fin 1, Fin 0, Fin 0, Fin 0, Fin (4 * pi), Fin 0, Fin 1]"
  have r0: "scale_r0 ?sat = Fin 1"
    by (simp add: scale_r0_def norm_v_simps)
  have v0: "scale_v0 ?pc ?sat = Fin (1 / (2 * pi))"
    by (simp add: scale_v0_def scale_s0_def r0)
  have y0: "initial_state ?pc ?sat = Inr ?y0"
    by (simp add: initial_state_def vdiv_def r0 v0 scale_m0_def)
  have ts: "sample_times 0 = Inr [0]"
    by (simp add: sample_times_def linspace_def)
  have sol: "\<And>f h. resting_solver f (t_span 0) ?y0 [0] h = Inr \<lparr>sol_success = True, sol_y = PyList\<rparr>"
    by (simp add: resting_solver_def t_span_def within_span_def)
  have "fst (get_trajectory_ODE ?pc resting_solver ?sat 0 (\<lambda>t. [0, 0, 0])) = Inl TypeError"
    by (simp add: get_trajectory_ODE_def y0 ts sol Let_def)
  with ts sol show ?thesis by (intro conjI)
qed

subsection \<open>The satellite object, failures and the run\<close>

lemma get_trajectory_ODE_frame: "snd (get_trajectory_ODE pc solve_ivp sat tf u) = sat"
  by (simp add: get_trajectory_ODE_def Let_def split: sum.split sol_values.split)

lemma run_loop_frame: "snd (run_loop pc solve_ivp c tf ss d) = ss"
proof (induction ss arbitrary: d)
  case Nil
  show ?case by simp
next
  case (Cons s ss)
  obtain res s' where g: "get_trajectory_ODE pc solve_ivp s tf (get_u_func c) = (res, s')"
    by (cases "get_trajectory_ODE pc solve_ivp s tf (get_u_func c)")
  with get_trajectory_ODE_frame[of pc solve_ivp s tf "get_u_func c"] have s': "s' = s" by simp
  show ?case
  proof (cases res)
    case (Inl e)
    with g s' show ?thesis by simp
  next
    case (Inr p)
    obtain r rest where rl: "run_loop pc solve_ivp c tf ss (d(sat_id s \<mapsto> p)) = (r, rest)"
      by (cases "run_loop pc solve_ivp c tf ss (d(sat_id s \<mapsto> p))")
    have "snd (run_loop pc solve_ivp c tf ss (d(sat_id s \<mapsto> p))) = ss"
      by (rule Cons.IH)
    with rl have "rest = ss" by simp
    with g s' Inr rl show ?thesis by simp
  qed
qed

text \<open>C9: the adaptive path leaves the satellite it is given as it was (identifier,
  position, velocity, mass and thrust), and so a run leaves every satellite of the
  simulator, and its controller, as they were.\<close>

theorem adaptive_path_leaves_satellite:
  "snd (get_trajectory_ODE pc solve_ivp sat tf u) = sat
   \<and> sats (snd (run pc solve_ivp sim tf)) = sats sim
   \<and> ctrl (snd (run pc solve_ivp sim tf)) = ctrl sim"
proof -
  obtain r ss where rl: "run_loop pc solve_ivp (ctrl sim) tf (sats sim) Map.empty = (r, ss)"
    by (cases "run_loop pc solve_ivp (ctrl sim) tf (sats sim) Map.empty")
  with run_loop_frame[of pc solve_ivp "ctrl sim" tf "sats sim" Map.empty] have "ss = sats sim"
    by simp
  with rl have "sats (snd (run pc solve_ivp sim tf)) = sats sim"
    "ctrl (snd (run pc solve_ivp sim tf)) = ctrl sim"
    by (simp_all add: run_def split: sum.split)
  with get_trajectory_ODE_frame show ?thesis by simp
qed

text \<open>The fixed-step path, by contrast, assigns a new position to the satellite it is
  given.\<close>

lemma fixed_step_moves_satellite:
  "fst (update_satellite_state pc
      \<lparr>sat_id = 0, position = [1, 0, 0], velocity = [0, 2, 0], mass = 2, thrust = [0, 0, 0]\<rparr> 1)
   = [Fin 1, Fin 2, Fin 0]"
  by (simp add: update_satellite_state_def Let_def vadd_def scal_def)

lemma run_loop_first_failure:
  assumes "list_all (\<lambda>p. \<not> isl (fst (get_trajectory_ODE pc solve_ivp p tf (get_u_func c)))) pre"
    and "fst (get_trajectory_ODE pc solve_ivp s tf (get_u_func c)) = Inl e"
  shows "fst (run_loop pc solve_ivp c tf (pre @ s # post) d) = Inl e"
  using assms
proof (induction pre arbitrary: d)
  case Nil
  then show ?case
    by (cases "get_trajectory_ODE pc solve_ivp s tf (get_u_func c)") simp
next
  case (Cons p pre)
  obtain res p' where g: "get_trajectory_ODE pc solve_ivp p tf (get_u_func c) = (res, p')"
    by (cases "get_trajectory_ODE pc solve_ivp p tf (get_u_func c)")
  from Cons.prems(1) g have "\<not> isl res" by simp
  then obtain pos where res: "res = Inr pos" by (cases res) simp_all
  from Cons.prems have pre: "list_all (\<lambda>p. \<not> isl (fst (get_trajectory_ODE pc solve_ivp p tf (get_u_func c)))) pre"
    by simp
  have "fst (run_loop pc solve_ivp c tf (pre @ s # post) (d(sat_id p' \<mapsto> pos))) = Inl e"
    by (rule Cons.IH[OF pre Cons.prems(2)])
  with g res show ?case by (auto split: prod.split)
qed

text \<open>C7, as the code has it: when the propagation of a satellite raises, the satellites
  before it having been propagated, the run raises that same error: it returns no
  mapping, whatever satellites come after, and the stored simulation data stay as they
  were.\<close>

theorem failure_aborts_run:
  assumes "sats sim = pre @ s # post"
    and "list_all (\<lambda>p. \<not> isl (fst (get_trajectory_ODE pc solve_ivp p tf (get_u_func (ctrl sim))))) pre"
    and "fst (get_trajectory_ODE pc solve_ivp s tf (get_u_func (ctrl sim))) = Inl e"
  shows "fst (run pc solve_ivp sim tf) = Inl e
    \<and> sim_data (snd (run pc solve_ivp sim tf)) = sim_data sim"
proof -
  from run_loop_first_failure[OF assms(2,3), of post Map.empty] assms(1)
  have "fst (run_loop pc solve_ivp (ctrl sim) tf (sats sim) Map.empty) = Inl e" by simp
  then show ?thesis
    by (cases "run_loop pc solve_ivp (ctrl sim) tf (sats sim) Map.empty")
       (simp add: run_def)
qed

lemma good_satellite_state:
  "initial_state \<lparr>MU_EARTH = 1, R_EARTH = 1, J2 = 0, C_D = 0, SA = 1, G0 = 1, ISP = 1\<rparr>
     \<lparr>sat_id = i, position = [1, 0, 0], velocity = [0, 2, 0], mass = 2, thrust = [0, 0, 0]\<rparr>
   = Inr [Fin 1, Fin 0, Fin 0, Fin 0, Fin (4 * pi), Fin 0, Fin 1]"
  by (simp add: initial_state_def vdiv_def scale_m0_def scale_r0_def norm_v_simps scale_v0_def
      scale_s0_def)

lemma good_satellite_run:
  "\<not> isl (fst (get_trajectory_ODE \<lparr>MU_EARTH = 1, R_EARTH = 1, J2 = 0, C_D = 0, SA = 1, G0 = 1, ISP = 1\<rparr>
      resting_solver
      \<lparr>sat_id = i, position = [1, 0, 0], velocity = [0, 2, 0], mass = 2, thrust = [0, 0, 0]\<rparr>
      1 u))"
proof -
  have fin: "list_all is_Fin [Fin 1, Fin 0, Fin 0, Fin 0, Fin (4 * pi), Fin 0, Fin 1]" by simp
  have tf: "(1::int) \<le> 1" by simp
  show ?thesis
    by (simp only: resting_run[OF good_satellite_state fin tf] sum.disc not_False_eq_True)
qed

lemma massless_satellite_run:
  "fst (get_trajectory_ODE pc solve_ivp
      \<lparr>sat_id = i, position = [1, 0, 0], velocity = [0, 2, 0], mass = 0, thrust = [0, 0, 0]\<rparr>
      tf u) = Inl ZeroDivisionError"
  by (simp add: get_trajectory_ODE_def initial_state_def scale_m0_def)

theorem failure_aborts_run_witness:
  "fst (run \<lparr>MU_EARTH = 1, R_EARTH = 1, J2 = 0, C_D = 0, SA = 1, G0 = 1, ISP = 1\<rparr> resting_solver
         \<lparr>sim_data = [7 \<mapsto> []],
          sats = [\<lparr>sat_id = 1, position = [1, 0, 0], velocity = [0, 2, 0], mass = 2, thrust = [0, 0, 0]\<rparr>,
                  \<lparr>sat_id = 2, position = [1, 0, 0], velocity = [0, 2, 0], mass = 0, thrust = [0, 0, 0]\<rparr>,
                  \<lparr>sat_id = 3, position = [1, 0, 0], velocity = [0, 2, 0], mass = 2, thrust = [0, 0, 0]\<rparr>],
          ctrl = \<lparr>get_u_func = (\<lambda>t. [0, 0, 0])\<rparr>\<rparr> 1)
     = Inl ZeroDivisionError
   \<and> sim_data (snd (run \<lparr>MU_EARTH = 1, R_EARTH = 1, J2 = 0, C_D = 0, SA = 1, G0 = 1, ISP = 1\<rparr> resting_solver
         \<lparr>sim_data = [7 \<mapsto> []],
          sats = [\<lparr>sat_id = 1, position = [1, 0, 0], velocity = [0, 2, 0], mass = 2, thrust = [0, 0, 0]\<rparr>,
                  \<lparr>sat_id = 2, position = [1, 0, 0], velocity = [0, 2, 0], mass = 0, thrust = [0, 0, 0]\<rparr>,
                  \<lparr>sat_id = 3, position = [1, 0, 0], velocity = [0, 2, 0], mass = 2, thrust = [0, 0, 0]\<rparr>],
          ctrl = \<lparr>get_u_func = (\<lambda>t. [0, 0, 0])\<rparr>\<rparr> 1))
     = [7 \<mapsto> []]"
proof -
  let ?pc = "\<lparr>MU_EARTH = 1, R_EARTH = 1, J2 = 0, C_D = 0, SA = 1, G0 = 1, ISP = 1\<rparr>"
  let ?a = "\<lparr>sat_id = 1, position = [1, 0, 0], velocity = [0, 2, 0], mass = 2, thrust = [0, 0, 0]\<rparr>"
  let ?b = "\<lparr>sat_id = 2, position = [1, 0, 0], velocity = [0, 2, 0], mass = 0, thrust = [0, 0, 0]\<rparr>"
  let ?c = "\<lparr>sat_id = 3, position = [1, 0, 0], velocity = [0, 2, 0], mass = 2, thrust = [0, 0, 0]\<rparr>"
  let ?sim = "\<lparr>sim_data = [7 \<mapsto> []], sats = [?a, ?b, ?c], ctrl = \<lparr>get_u_func = (\<lambda>t. [0, 0, 0])\<rparr>\<rparr>"
  have 1: "sats ?sim = [?a] @ ?b # [?c]" by simp
  have 2: "list_all (\<lambda>p. \<not> isl (fst (get_trajectory_ODE ?pc resting_solver p 1
                (get_u_func (ctrl ?sim))))) [?a]"
    using good_satellite_run[of 1] by simp
  have 3: "fst (get_trajectory_ODE ?pc resting_solver ?b 1 (get_u_func (ctrl ?sim)))
             = Inl ZeroDivisionError"
    by (rule massless_satellite_run)
  from failure_aborts_run[OF 1 2 3] show ?thesis by simp
qed

text \<open>C7 as stated wants the failure of one satellite kept apart from the others. With a
  first satellite of mass zero (its normalization raises ZeroDivisionError) and a
  second one that propagates well on its own, the run as a whole raises.\<close>

theorem failure_is_raised_globally:
  "fst (run \<lparr>MU_EARTH = 1, R_EARTH = 1, J2 = 0, C_D = 0, SA = 1, G0 = 1, ISP = 1\<rparr> resting_solver
         \<lparr>sim_data = Map.empty,
          sats = [\<lparr>sat_id = 1, position = [1, 0, 0], velocity = [0, 2, 0], mass = 0, thrust = [0, 0, 0]\<rparr>,
                  \<lparr>sat_id = 2, position = [1, 0, 0], velocity = [0, 2, 0], mass = 2, thrust = [0, 0, 0]\<rparr>],
          ctrl = \<lparr>get_u_func = (\<lambda>t. [0, 0, 0])\<rparr>\<rparr> 1)
     = Inl ZeroDivisionError
   \<and> \<not> isl (fst (get_trajectory_ODE \<lparr>MU_EARTH = 1, R_EARTH = 1, J2 = 0, C_D = 0, SA = 1, G0 = 1, ISP = 1\<rparr>
          resting_solver
          \<lparr>sat_id = 2, position = [1, 0, 0], velocity = [0, 2, 0], mass = 2, thrust = [0, 0, 0]\<rparr>
          1 (\<lambda>t. [0, 0, 0])))"
proof -
  let ?pc = "\<lparr>MU_EARTH = 1, R_EARTH = 1, J2 = 0, C_D = 0, SA = 1, G0 = 1, ISP = 1\<rparr>"
  let ?b = "\<lparr>sat_id = 1, position = [1, 0, 0], velocity = [0, 2, 0], mass = 0, thrust = [0, 0, 0]\<rparr>"
  have "get_trajectory_ODE ?pc resting_solver ?b 1 (\<lambda>t. [0, 0, 0]) = (Inl ZeroDivisionError, ?b)"
    by (simp add: get_trajectory_ODE_def initial_state_def scale_m0_def)
  then have "fst (run ?pc resting_solver
         \<lparr>sim_data = Map.empty,
          sats = [?b, \<lparr>sat_id = 2, position = [1, 0, 0], velocity = [0, 2, 0], mass = 2, thrust = [0, 0, 0]\<rparr>],
          ctrl = \<lparr>get_u_func = (\<lambda>t. [0, 0, 0])\<rparr>\<rparr> 1) = Inl ZeroDivisionError"
    by (simp add: run_def)
  with good_satellite_run[of 2 "\<lambda>t. [0, 0, 0]"] show ?thesis by (intro conjI)
qed

subsection \<open>A position norm of zero\<close>




end
